theory Spec2Isabelle
  imports Main "HOL-Library.Multiset"
begin

section \<open>Go values: errors, panics, strings\<close>

text \<open>
  A Go \<open>error\<close> value. \<open>AwsError code text\<close> is a value that satisfies the SDK's
  \<open>awserr.Error\<close> interface: \<open>code\<close> is what \<open>Code()\<close> returns and \<open>text\<close> what
  \<open>Error()\<close> returns. \<open>OtherError text\<close> is any error that does not satisfy that
  interface. The remaining constructors are the errors the code itself builds:
  \<open>exceptions.MissingResource{s}\<close>, \<open>errors.Wrap(err, msg)\<close> / \<open>errors.Wrapf\<close>, and
  \<open>errors.Errorf(msg)\<close>.
\<close>

datatype error =
    AwsError string string
  | OtherError string
  | MissingResource string
  | Wrap error string
  | Errorf string

text \<open>The text of \<open>err.Error()\<close>; a wrapped error prints as \<open>msg: cause\<close>.\<close>

fun Error :: "error \<Rightarrow> string" where
  "Error (AwsError code text) = text"
| "Error (OtherError text) = text"
| "Error (MissingResource text) = text"
| "Error (Wrap err msg) = msg @ '': '' @ Error err"
| "Error (Errorf msg) = msg"

text \<open>A Go call either returns its results or panics at run time.\<close>

datatype 'a go = Ret 'a | Panic string

definition nil_dereference :: string where
  "nil_dereference = ''invalid memory address or nil pointer dereference''"

definition index_out_of_range :: string where
  "index_out_of_range = ''index out of range''"

text \<open>
  \<open>strings.Split(s, sep)\<close> for a separator of one byte (the code only ever passes
  \<open>"/"\<close>): the pieces between the separators, one more than there are separators,
  so never an empty list.
\<close>

fun Split :: "string \<Rightarrow> char \<Rightarrow> string list" where
  "Split [] sep = [[]]"
| "Split (c # cs) sep =
     (if c = sep then [] # Split cs sep
      else (case Split cs sep of
              [] \<Rightarrow> [[c]]
            | w # ws \<Rightarrow> (c # w) # ws))"

text \<open>\<open>strings.Join(elems, sep)\<close>.\<close>

fun Join :: "string list \<Rightarrow> string \<Rightarrow> string" where
  "Join [] sep = []"
| "Join [x] sep = x"
| "Join (x # y # ys) sep = x @ sep @ Join (y # ys) sep"

text \<open>\<open>fmt.Sprintf("%s/%s/%s", a, b, c)\<close>.\<close>

definition Sprintf_s3 :: "string \<Rightarrow> string \<Rightarrow> string \<Rightarrow> string" where
  "Sprintf_s3 a b c = a @ ''/'' @ b @ ''/'' @ c"

section \<open>The state package, as far as the log services read it\<close>

text \<open>
  Modelled from the spec: the status, engine and executable-type constants of
  package \<open>state\<close> are declared outside the sources. The spec names the statuses
  running and stopped (and queued, pending as examples of the others), the
  "definition" executable type and the managed-cloud (ECS) engine. Statuses,
  engines and executable types are Go strings. The general theorems below hold
  whatever the constants are spelled like; only the worked examples evaluate them.
\<close>

definition StatusQueued :: string where "StatusQueued = ''QUEUED''"
definition StatusPending :: string where "StatusPending = ''PENDING''"
definition StatusRunning :: string where "StatusRunning = ''RUNNING''"
definition StatusStopped :: string where "StatusStopped = ''STOPPED''"

definition ECSEngine :: string where "ECSEngine = ''ecs''"

definition ExecutableTypeDefinition :: string where
  "ExecutableTypeDefinition = ''task_definition''"

text \<open>
  Modelled from the spec: the struct \<open>state.Run\<close> is declared outside the sources. Its
  attributes are those of the spec's data model (run identifier, status, optional
  executable type and id, definition identifier, engine, task handle) under the
  names the source reads them by. \<open>ExecutableID\<close>, \<open>ExecutableType\<close> and \<open>Engine\<close> are
  pointers in the source (compared with \<open>nil\<close>, dereferenced with \<open>*\<close>): \<open>None\<close> is
  \<open>nil\<close>.
\<close>

record Run =
  RunID :: string
  DefinitionID :: string
  TaskArn :: string
  Status :: string
  ExecutableID :: "string option"
  ExecutableType :: "string option"
  Engine :: "string option"

text \<open>
  Modelled from the spec: the interface \<open>state.Executable\<close> is declared outside the
  sources; the spec gives it "at minimum a container/process name". The code reads
  \<open>GetExecutableID()\<close> and \<open>GetExecutableResources().ContainerName\<close>. A variable of the
  interface type may be \<open>nil\<close>: such a variable is an \<open>Executable option\<close>.
\<close>

record Executable =
  GetExecutableID :: string
  ContainerName :: string

text \<open>
  Modelled from the spec: the interface \<open>state.Manager\<close> is declared outside the
  sources; the spec lists its lookups \<open>GetRun(id)\<close> and
  \<open>GetExecutableByTypeAndID(type, id)\<close>. Both return a value and an error, as the
  source receives them.
\<close>

record Manager =
  GetRun :: "string \<Rightarrow> Run \<times> error option"
  GetExecutableByTypeAndID :: "string \<Rightarrow> string \<Rightarrow> Executable option \<times> error option"

section \<open>services/logs.go: the run log orchestrator\<close>

text \<open>
  Modelled from the spec: the interface \<open>logs.Client\<close> of a log backend client is
  declared outside the sources; the service calls its \<open>Logs\<close> and \<open>LogsText\<close>. A
  client acts on a world \<open>'w\<close> (its connection, the remote store, the HTTP response
  writer that \<open>LogsText\<close> writes to), passed in and returned.
\<close>

record 'w Client =
  Client_Logs :: "Executable option \<Rightarrow> Run \<Rightarrow> string option \<Rightarrow> 'w
                    \<Rightarrow> (string \<times> string option \<times> error option) go \<times> 'w"
  Client_LogsText :: "Executable option \<Rightarrow> Run \<Rightarrow> 'w \<Rightarrow> error option go \<times> 'w"

record 'w logService =
  sm :: Manager
  lc :: "'w Client"

text \<open>
  The calls the service makes on its two collaborators, in the order it makes
  them, are recorded beside the client's world.
\<close>

datatype collaborator_call =
    CallGetRun string
  | CallGetExecutableByTypeAndID string string
  | CallClientLogs "Executable option" Run "string option"
  | CallClientLogsText "Executable option" Run

record 'w service_state =
  calls :: "collaborator_call list"
  world :: 'w

definition record_call :: "collaborator_call \<Rightarrow> 'w service_state \<Rightarrow> 'w service_state" where
  "record_call c s = s\<lparr>calls := calls s @ [c]\<rparr>"

text \<open>\<open>ls.lc.Logs(executable, run, lastSeen)\<close> and \<open>ls.lc.LogsText(executable, run, w)\<close>.\<close>

definition lc_Logs ::
  "'w logService \<Rightarrow> Executable option \<Rightarrow> Run \<Rightarrow> string option \<Rightarrow> 'w service_state
     \<Rightarrow> (string \<times> string option \<times> error option) go \<times> 'w service_state" where
  "lc_Logs ls executable run lastSeen s =
     (let s' = record_call (CallClientLogs executable run lastSeen) s;
          (r, w') = Client_Logs (lc ls) executable run lastSeen (world s')
      in (r, s'\<lparr>world := w'\<rparr>))"

definition lc_LogsText ::
  "'w logService \<Rightarrow> Executable option \<Rightarrow> Run \<Rightarrow> 'w service_state
     \<Rightarrow> error option go \<times> 'w service_state" where
  "lc_LogsText ls executable run s =
     (let s' = record_call (CallClientLogsText executable run) s;
          (r, w') = Client_LogsText (lc ls) executable run (world s')
      in (r, s'\<lparr>world := w'\<rparr>))"

text \<open>
  \<open>logService.Logs\<close>. The condition \<open>err != nil && *run.Engine == state.ECSEngine\<close>
  dereferences \<open>run.Engine\<close> only when the lookup failed.
\<close>

definition logService_Logs ::
  "'w logService \<Rightarrow> string \<Rightarrow> string option \<Rightarrow> 'w service_state
     \<Rightarrow> (string \<times> string option \<times> error option) go \<times> 'w service_state" where
  "logService_Logs ls runID lastSeen s0 =
     (let s1 = record_call (CallGetRun runID) s0;
          (run, err) = GetRun (sm ls) runID
      in if err \<noteq> None then (Ret ('''', None, err), s1)
         else if Status run \<noteq> StatusRunning \<and> Status run \<noteq> StatusStopped
         then (Ret ('''', None, None), s1)
         else
           (let run = (if ExecutableType run = None
                       then run\<lparr>ExecutableType := Some ExecutableTypeDefinition\<rparr>
                       else run);
                run = (if ExecutableID run = None
                       then run\<lparr>ExecutableID := Some (DefinitionID run)\<rparr>
                       else run)
            in case (ExecutableType run, ExecutableID run) of
                 (Some t, Some i) \<Rightarrow>
                   (let s2 = record_call (CallGetExecutableByTypeAndID t i) s1;
                        (executable, err) = GetExecutableByTypeAndID (sm ls) t i
                    in if err \<noteq> None
                       then (case Engine run of
                               None \<Rightarrow> (Panic nil_dereference, s2)
                             | Some engine \<Rightarrow>
                                 if engine = ECSEngine then (Ret ('''', None, err), s2)
                                 else lc_Logs ls executable run lastSeen s2)
                       else lc_Logs ls executable run lastSeen s2)
               | _ \<Rightarrow> (Panic nil_dereference, s1)))"

text \<open>
  \<open>logService.LogsText\<close>. The error of the executable lookup is assigned and not
  read again.
\<close>

definition logService_LogsText ::
  "'w logService \<Rightarrow> string \<Rightarrow> 'w service_state \<Rightarrow> error option go \<times> 'w service_state" where
  "logService_LogsText ls runID s0 =
     (let s1 = record_call (CallGetRun runID) s0;
          (run, err) = GetRun (sm ls) runID
      in if err \<noteq> None then (Ret err, s1)
         else if Status run \<noteq> StatusRunning \<and> Status run \<noteq> StatusStopped
         then (Ret None, s1)
         else
           (let run = (if ExecutableType run = None
                       then run\<lparr>ExecutableType := Some ExecutableTypeDefinition\<rparr>
                       else run);
                run = (if ExecutableID run = None
                       then run\<lparr>ExecutableID := Some (DefinitionID run)\<rparr>
                       else run)
            in case (ExecutableType run, ExecutableID run) of
                 (Some t, Some i) \<Rightarrow>
                   (let s2 = record_call (CallGetExecutableByTypeAndID t i) s1;
                        (executable, err) = GetExecutableByTypeAndID (sm ls) t i
                    in lc_LogsText ls executable run s2)
               | _ \<Rightarrow> (Panic nil_dereference, s1)))"

section \<open>clients/logs: the CloudWatch Logs client for ECS\<close>

text \<open>
  The Go source of \<open>ECSCloudWatchLogsClient\<close> (package \<open>logs\<close>) is the second part of
  the file \<open>src/ui/src/helpers/runFormHelpers.ts\<close>.
\<close>

subsection \<open>The SDK's request and response values\<close>

text \<open>
  \<open>cloudwatchlogs.GetLogEventsInput\<close>, with the fields the code sets. The other
  inputs carry one or two fields and are written as constructors:
  \<open>DescribeLogGroupsInput prefix\<close>, \<open>CreateLogGroupInput name\<close>,
  \<open>PutRetentionPolicyInput name days\<close>.
\<close>

record GetLogEventsInput =
  LogGroupName :: string
  LogStreamName :: string
  StartFromHead :: bool
  NextToken :: "string option"

datatype DescribeLogGroupsInput = DescribeLogGroupsInput string
datatype CreateLogGroupInput = CreateLogGroupInput string
datatype PutRetentionPolicyInput = PutRetentionPolicyInput string int

text \<open>
  The responses. The service fills in the timestamp and the message of every event
  and the name of every log group, so they are plain values here; the 64-bit
  timestamp and retention period are only compared and passed on, never computed
  with, and are carried as \<open>int\<close>. \<open>NextForwardToken\<close> may be \<open>nil\<close>.
\<close>

datatype OutputLogEvent = OutputLogEvent (Timestamp: int) (Message: string)

record GetLogEventsOutput =
  Events :: "OutputLogEvent list"
  NextForwardToken :: "string option"

datatype LogGroup = LogGroup (GroupName: string)

datatype DescribeLogGroupsOutput = DescribeLogGroupsOutput (LogGroups: "LogGroup list")

text \<open>
  Modelled from the spec: the interface \<open>logsClient\<close> is declared outside the sources.
  It holds the four SDK operations the client calls, each acting on the remote
  store \<open>'b\<close>. A call returns either an error or a response.
\<close>

record 'b logsClient =
  GetLogEvents :: "GetLogEventsInput \<Rightarrow> 'b \<Rightarrow> (error + GetLogEventsOutput) \<times> 'b"
  DescribeLogGroups :: "DescribeLogGroupsInput \<Rightarrow> 'b \<Rightarrow> (error + DescribeLogGroupsOutput) \<times> 'b"
  CreateLogGroup :: "CreateLogGroupInput \<Rightarrow> 'b \<Rightarrow> error option \<times> 'b"
  PutRetentionPolicy :: "PutRetentionPolicyInput \<Rightarrow> 'b \<Rightarrow> error option \<times> 'b"

text \<open>
  \<open>cloudwatchlogs.ErrCodeResourceNotFoundException\<close>, and the SDK's
  \<open>request.IsErrorThrottle\<close>: an \<open>awserr.Error\<close> whose code is one of the SDK's
  throttle codes.
\<close>

definition ErrCodeResourceNotFoundException :: string where
  "ErrCodeResourceNotFoundException = ''ResourceNotFoundException''"

definition throttleCodes :: "string list" where
  "throttleCodes =
     [''ProvisionedThroughputExceededException'', ''ThrottledException'', ''Throttling'',
      ''ThrottlingException'', ''RequestLimitExceeded'', ''RequestThrottled'',
      ''RequestThrottledException'', ''TooManyRequestsException'',
      ''PriorRequestNotComplete'', ''TransactionInProgressException'',
      ''EC2ThrottledException'']"

fun IsErrorThrottle :: "error \<Rightarrow> bool" where
  "IsErrorThrottle (AwsError code text) = (code \<in> set throttleCodes)"
| "IsErrorThrottle _ = False"

subsection \<open>The client and what it does to the outside\<close>

record 'b ECSCloudWatchLogsClient =
  logRetentionInDays :: int
  logNamespace :: string
  logStreamPrefix :: string
  logsClient :: "'b logsClient"

text \<open>
  What a call of the client leaves behind: the remote store, the requests sent to
  it in order, and the lines given to \<open>cwl.logger\<close>.
\<close>

datatype sdk_request =
    ReqGetLogEvents GetLogEventsInput
  | ReqDescribeLogGroups DescribeLogGroupsInput
  | ReqCreateLogGroup CreateLogGroupInput
  | ReqPutRetentionPolicy PutRetentionPolicyInput

text \<open>
  \<open>logger.Printf(format, executable_id, run_id, err)\<close>: the format and its three
  arguments.
\<close>

datatype log_line = Printf string string string error

record 'b cloudwatch =
  store :: 'b
  requests :: "sdk_request list"
  logged :: "log_line list"

definition sdk_GetLogEvents ::
  "'b ECSCloudWatchLogsClient \<Rightarrow> GetLogEventsInput \<Rightarrow> 'b cloudwatch
     \<Rightarrow> (error + GetLogEventsOutput) \<times> 'b cloudwatch" where
  "sdk_GetLogEvents cwl args s =
     (let (r, b) = GetLogEvents (logsClient cwl) args (store s)
      in (r, s\<lparr>store := b, requests := requests s @ [ReqGetLogEvents args]\<rparr>))"

definition sdk_DescribeLogGroups ::
  "'b ECSCloudWatchLogsClient \<Rightarrow> DescribeLogGroupsInput \<Rightarrow> 'b cloudwatch
     \<Rightarrow> (error + DescribeLogGroupsOutput) \<times> 'b cloudwatch" where
  "sdk_DescribeLogGroups cwl args s =
     (let (r, b) = DescribeLogGroups (logsClient cwl) args (store s)
      in (r, s\<lparr>store := b, requests := requests s @ [ReqDescribeLogGroups args]\<rparr>))"

definition sdk_CreateLogGroup ::
  "'b ECSCloudWatchLogsClient \<Rightarrow> CreateLogGroupInput \<Rightarrow> 'b cloudwatch
     \<Rightarrow> error option \<times> 'b cloudwatch" where
  "sdk_CreateLogGroup cwl args s =
     (let (r, b) = CreateLogGroup (logsClient cwl) args (store s)
      in (r, s\<lparr>store := b, requests := requests s @ [ReqCreateLogGroup args]\<rparr>))"

definition sdk_PutRetentionPolicy ::
  "'b ECSCloudWatchLogsClient \<Rightarrow> PutRetentionPolicyInput \<Rightarrow> 'b cloudwatch
     \<Rightarrow> error option \<times> 'b cloudwatch" where
  "sdk_PutRetentionPolicy cwl args s =
     (let (r, b) = PutRetentionPolicy (logsClient cwl) args (store s)
      in (r, s\<lparr>store := b, requests := requests s @ [ReqPutRetentionPolicy args]\<rparr>))"

definition logger_Printf ::
  "string \<Rightarrow> string \<Rightarrow> string \<Rightarrow> error \<Rightarrow> 'b cloudwatch \<Rightarrow> 'b cloudwatch" where
  "logger_Printf format a b err s = s\<lparr>logged := logged s @ [Printf format a b err]\<rparr>"

subsection \<open>Sorting the events\<close>

text \<open>
  Modelled from the spec: the type \<open>byTimestamp\<close> and its \<open>Less\<close> method are declared
  in a file that is not among the sources. The spec says the events are sorted
  "ascending by timestamp": \<open>Less\<close> compares the timestamps.
\<close>

definition byTimestamp_Less :: "OutputLogEvent \<Rightarrow> OutputLogEvent \<Rightarrow> bool" where
  "byTimestamp_Less a b = (Timestamp a < Timestamp b)"

text \<open>
  \<open>sort.Sort\<close> is the Go library's; it is a parameter of the model. Its contract on
  an input: the result is a rearrangement of the input in which no later element
  is \<open>Less\<close> than an earlier one. The sort need not be stable.
\<close>

type_synonym 'a sort_Sort = "('a \<Rightarrow> 'a \<Rightarrow> bool) \<Rightarrow> 'a list \<Rightarrow> 'a list"

definition sorts :: "'a sort_Sort \<Rightarrow> ('a \<Rightarrow> 'a \<Rightarrow> bool) \<Rightarrow> 'a list \<Rightarrow> bool" where
  "sorts srt lt xs \<longleftrightarrow>
     mset (srt lt xs) = mset xs \<and> sorted_wrt (\<lambda>a b. \<not> lt b a) (srt lt xs)"

text \<open>One sort that meets the contract: insertion sort, as Go uses on short slices.\<close>

fun insert_by :: "('a \<Rightarrow> 'a \<Rightarrow> bool) \<Rightarrow> 'a \<Rightarrow> 'a list \<Rightarrow> 'a list" where
  "insert_by lt x [] = [x]"
| "insert_by lt x (y # ys) =
     (if lt y x then y # insert_by lt x ys else x # y # ys)"

definition insertionSort :: "'a sort_Sort" where
  "insertionSort lt xs = foldr (insert_by lt) xs []"

subsection \<open>Logs and LogsText\<close>

definition toStreamName :: "'b ECSCloudWatchLogsClient \<Rightarrow> Executable option \<Rightarrow> Run \<Rightarrow> string go" where
  "toStreamName cwl executable run =
     (let arnSplits = Split (TaskArn run) (CHR ''/'')
      in case executable of
           None \<Rightarrow> Panic nil_dereference
         | Some e \<Rightarrow>
             if length arnSplits = 0 then Panic index_out_of_range
             else Ret (Sprintf_s3 (logStreamPrefix cwl) (ContainerName e)
                         (arnSplits ! (length arnSplits - 1))))"

definition logsToMessage :: "OutputLogEvent sort_Sort \<Rightarrow> OutputLogEvent list \<Rightarrow> string" where
  "logsToMessage srt events =
     (let events = srt byTimestamp_Less events;
          messages = map Message events
      in Join messages [CHR 0x0A])"

definition ECSCloudWatchLogsClient_Logs ::
  "OutputLogEvent sort_Sort \<Rightarrow> 'b ECSCloudWatchLogsClient \<Rightarrow> Executable option \<Rightarrow> Run
     \<Rightarrow> string option \<Rightarrow> 'b cloudwatch
     \<Rightarrow> (string \<times> string option \<times> error option) go \<times> 'b cloudwatch" where
  "ECSCloudWatchLogsClient_Logs srt cwl executable run lastSeen s =
     (let startFromHead = True
      in case toStreamName cwl executable run of
           Panic p \<Rightarrow> (Panic p, s)
         | Ret handle \<Rightarrow>
            (let args = \<lparr>LogGroupName = logNamespace cwl, LogStreamName = handle,
                         StartFromHead = startFromHead, NextToken = None\<rparr>;
                 args = (case lastSeen of
                           Some token \<Rightarrow>
                             if length token > 0 then args\<lparr>NextToken := lastSeen\<rparr> else args
                         | None \<Rightarrow> args);
                 (result, s) = sdk_GetLogEvents cwl args s
             in case result of
                  Inl err \<Rightarrow>
                    (case err of
                       AwsError code text \<Rightarrow>
                         if code = ErrCodeResourceNotFoundException
                         then (Ret ('''', None, Some (MissingResource (Error err))), s)
                         else if IsErrorThrottle err
                         then (case executable of
                                 None \<Rightarrow> (Panic nil_dereference, s)
                               | Some e \<Rightarrow>
                                   (Ret ('''', lastSeen, None),
                                    logger_Printf
                                      (''thottled getting logs; executable_id: %v, run_id: %s, error: %+v''
                                         @ [CHR 0x0A])
                                      (GetExecutableID e) (RunID run) err s))
                         else (Ret ('''', None, Some (Wrap err ''problem getting logs'')), s)
                     | _ \<Rightarrow> (Ret ('''', None, Some (Wrap err ''problem getting logs'')), s))
                | Inr result \<Rightarrow>
                    if length (Events result) = 0
                    then (Ret ('''', NextForwardToken result, None), s)
                    else (let message = logsToMessage srt (Events result)
                          in (Ret (message, NextForwardToken result, None), s))))"

definition ECSCloudWatchLogsClient_LogsText ::
  "'b ECSCloudWatchLogsClient \<Rightarrow> Executable option \<Rightarrow> Run \<Rightarrow> 'b cloudwatch
     \<Rightarrow> error option go \<times> 'b cloudwatch" where
  "ECSCloudWatchLogsClient_LogsText cwl executable run s =
     (Ret (Some (Errorf ''ECSCloudWatchLogsClient does not support LogsText method.'')), s)"

subsection \<open>Provisioning the namespace\<close>

text \<open>The loop of \<open>namespaceExists\<close> over the log groups of the response.\<close>

fun namespaceExists_scan :: "string \<Rightarrow> LogGroup list \<Rightarrow> bool" where
  "namespaceExists_scan ns [] = False"
| "namespaceExists_scan ns (g # gs) =
     (if GroupName g = ns then True else namespaceExists_scan ns gs)"

definition namespaceExists ::
  "'b ECSCloudWatchLogsClient \<Rightarrow> 'b cloudwatch \<Rightarrow> (bool \<times> error option) \<times> 'b cloudwatch" where
  "namespaceExists cwl s =
     (let (result, s) = sdk_DescribeLogGroups cwl (DescribeLogGroupsInput (logNamespace cwl)) s
      in case result of
           Inl err \<Rightarrow>
             ((False, Some (Wrap err (''problem describing log groups with prefix [''
                                        @ logNamespace cwl @ '']''))), s)
         | Inr result \<Rightarrow>
             if length (LogGroups result) = 0 then ((False, None), s)
             else ((namespaceExists_scan (logNamespace cwl) (LogGroups result), None), s))"

definition createNamespace ::
  "'b ECSCloudWatchLogsClient \<Rightarrow> 'b cloudwatch \<Rightarrow> error option \<times> 'b cloudwatch" where
  "createNamespace cwl s =
     (let (err, s) = sdk_CreateLogGroup cwl (CreateLogGroupInput (logNamespace cwl)) s
      in case err of
           Some e \<Rightarrow>
             (Some (Wrap e (''problem creating log group with log group name [''
                              @ logNamespace cwl @ '']'')), s)
         | None \<Rightarrow>
           (let (err, s) = sdk_PutRetentionPolicy cwl
                             (PutRetentionPolicyInput (logNamespace cwl) (logRetentionInDays cwl)) s
            in case err of
                 Some e \<Rightarrow>
                   (Some (Wrap e
                      (''problem setting log group retention policy for log group name [''
                         @ logNamespace cwl @ '']'')), s)
               | None \<Rightarrow> (None, s)))"

definition createNamespaceIfNotExists ::
  "'b ECSCloudWatchLogsClient \<Rightarrow> 'b cloudwatch \<Rightarrow> error option \<times> 'b cloudwatch" where
  "createNamespaceIfNotExists cwl s =
     (let ((exists, err), s) = namespaceExists cwl s
      in case err of
           Some e \<Rightarrow>
             (Some (Wrap e (''problem checking if log namespace [''
                              @ logNamespace cwl @ ''] exists'')), s)
         | None \<Rightarrow> if \<not> exists then createNamespace cwl s else (None, s))"

text \<open>The client as a \<open>logs.Client\<close> of the log service.\<close>

definition ECSCloudWatchLogsClient_Client ::
  "OutputLogEvent sort_Sort \<Rightarrow> 'b ECSCloudWatchLogsClient \<Rightarrow> 'b cloudwatch Client" where
  "ECSCloudWatchLogsClient_Client srt cwl =
     \<lparr>Client_Logs = ECSCloudWatchLogsClient_Logs srt cwl,
      Client_LogsText = ECSCloudWatchLogsClient_LogsText cwl\<rparr>"

section \<open>Words used in the statements\<close>

text \<open>
  The request that \<open>Logs\<close> is to send for a stream handle and a cursor: from the head
  of the stream, with the cursor as continuation token when there is a non-empty one.
\<close>

definition fetch_request ::
  "'b ECSCloudWatchLogsClient \<Rightarrow> string \<Rightarrow> string option \<Rightarrow> GetLogEventsInput" where
  "fetch_request cwl handle cursor =
     \<lparr>LogGroupName = logNamespace cwl, LogStreamName = handle, StartFromHead = True,
      NextToken = (if cursor = Some [] then None else cursor)\<rparr>"

text \<open>The part of a string after its last \<open>/\<close> (all of it when it has none).\<close>

definition last_segment :: "string \<Rightarrow> string" where
  "last_segment s = rev (takeWhile (\<lambda>c. c \<noteq> CHR ''/'') (rev s))"

definition is_create :: "sdk_request \<Rightarrow> bool" where
  "is_create r = (case r of ReqCreateLogGroup _ \<Rightarrow> True | _ \<Rightarrow> False)"

text \<open>
  The store answers the listing for the client's namespace with a group of exactly
  that name.
\<close>

definition namespace_listed :: "'b ECSCloudWatchLogsClient \<Rightarrow> 'b \<Rightarrow> bool" where
  "namespace_listed cwl b =
     (case fst (DescribeLogGroups (logsClient cwl) (DescribeLogGroupsInput (logNamespace cwl)) b) of
        Inl err \<Rightarrow> False
      | Inr out \<Rightarrow> LogGroup (logNamespace cwl) \<in> set (LogGroups out))"

text \<open>The requests a call added to those of the state it started from.\<close>

definition requests_since :: "'b cloudwatch \<Rightarrow> 'b cloudwatch \<Rightarrow> sdk_request list" where
  "requests_since s s' = drop (length (requests s)) (requests s')"

section \<open>Collaborators for running the code on concrete inputs\<close>

text \<open>
  A log store held in memory, standing for the service: the groups with their
  retention periods. Listing returns the groups whose name starts with the prefix,
  creating a group that exists fails, and so does setting the retention of a group
  that does not.
\<close>

definition memory_logsClient :: "(string \<times> int option) list logsClient" where
  "memory_logsClient =
     \<lparr>GetLogEvents = (\<lambda>args b. (Inl (AwsError ErrCodeResourceNotFoundException ''no such stream''), b)),
      DescribeLogGroups = (\<lambda>args b. case args of DescribeLogGroupsInput p \<Rightarrow>
         (Inr (DescribeLogGroupsOutput
                 (map (\<lambda>g. LogGroup (fst g)) (filter (\<lambda>g. take (length p) (fst g) = p) b))), b)),
      CreateLogGroup = (\<lambda>args b. case args of CreateLogGroupInput n \<Rightarrow>
         if n \<in> set (map fst b)
         then (Some (AwsError ''ResourceAlreadyExistsException'' ''group exists''), b)
         else (None, b @ [(n, None)])),
      PutRetentionPolicy = (\<lambda>args b. case args of PutRetentionPolicyInput n d \<Rightarrow>
         if n \<in> set (map fst b)
         then (None, map (\<lambda>g. if fst g = n then (n, Some d) else g) b)
         else (Some (AwsError ErrCodeResourceNotFoundException ''no such group''), b))\<rparr>"

text \<open>A store whose every fetch gives the same answer.\<close>

definition scripted_logsClient :: "(error + GetLogEventsOutput) \<Rightarrow> unit logsClient" where
  "scripted_logsClient answer =
     \<lparr>GetLogEvents = (\<lambda>args b. (answer, b)),
      DescribeLogGroups = (\<lambda>args b. (Inr (DescribeLogGroupsOutput []), b)),
      CreateLogGroup = (\<lambda>args b. (None, b)),
      PutRetentionPolicy = (\<lambda>args b. (None, b))\<rparr>"

text \<open>A state manager that knows one run and finds, or fails to find, its executable.\<close>

definition single_run_Manager :: "Run \<Rightarrow> Executable option \<times> error option \<Rightarrow> Manager" where
  "single_run_Manager run found =
     \<lparr>GetRun = (\<lambda>runID. (run, None)),
      GetExecutableByTypeAndID = (\<lambda>t i. found)\<rparr>"

text \<open>A backend client that counts how often it is called and returns nothing.\<close>

definition counting_Client :: "nat Client" where
  "counting_Client =
     \<lparr>Client_Logs = (\<lambda>executable run lastSeen n. (Ret ('''', None, None), Suc n)),
      Client_LogsText = (\<lambda>executable run n. (Ret None, Suc n))\<rparr>"

definition example_run :: "string \<Rightarrow> string option \<Rightarrow> Run" where
  "example_run status engine =
     \<lparr>RunID = ''run-1'', DefinitionID = ''abc'', TaskArn = ''arn:aws:ecs:task/abc123'',
      Status = status, ExecutableID = None, ExecutableType = None, Engine = engine\<rparr>"

section \<open>The log service: what it asks of its collaborators\<close>

text \<open>
  Once the run is loaded and its status lets it through, both operations look the
  executable up under the defaulted type and id and go on with the run whose two
  fields are filled in.
\<close>

lemma Run_update_same:
  "ExecutableType run = Some a \<Longrightarrow> run\<lparr>ExecutableType := Some a\<rparr> = run"
  "ExecutableID run = Some b \<Longrightarrow> run\<lparr>ExecutableID := Some b\<rparr> = run"
  by (cases run; simp)+

lemma calls_lc_Logs:
  "calls (snd (lc_Logs ls executable run lastSeen s))
     = calls s @ [CallClientLogs executable run lastSeen]"
  by (simp add: lc_Logs_def record_call_def split: prod.splits)

lemma calls_lc_LogsText:
  "calls (snd (lc_LogsText ls executable run s)) = calls s @ [CallClientLogsText executable run]"
  by (simp add: lc_LogsText_def record_call_def split: prod.splits)

lemma logService_Logs_past_gate:
  assumes "GetRun (sm ls) runID = (run, None)"
      and "Status run = StatusRunning \<or> Status run = StatusStopped"
      and "t = (case ExecutableType run of None \<Rightarrow> ExecutableTypeDefinition | Some x \<Rightarrow> x)"
      and "i = (case ExecutableID run of None \<Rightarrow> DefinitionID run | Some x \<Rightarrow> x)"
      and "GetExecutableByTypeAndID (sm ls) t i = (executable, err)"
      and "s' = s\<lparr>calls := calls s @ [CallGetRun runID, CallGetExecutableByTypeAndID t i]\<rparr>"
      and "run' = run\<lparr>ExecutableType := Some t, ExecutableID := Some i\<rparr>"
  shows "logService_Logs ls runID lastSeen s =
           (case err of
              None \<Rightarrow> lc_Logs ls executable run' lastSeen s'
            | Some e \<Rightarrow>
                (case Engine run of
                   None \<Rightarrow> (Panic nil_dereference, s')
                 | Some engine \<Rightarrow>
                     if engine = ECSEngine then (Ret ('''', None, Some e), s')
                     else lc_Logs ls executable run' lastSeen s'))"
proof (cases "ExecutableType run")
  case None
  show ?thesis
  proof (cases "ExecutableID run")
    case None
    with \<open>ExecutableType run = None\<close> assms show ?thesis
      by (auto simp: logService_Logs_def record_call_def Let_def split: option.splits)
  next
    case (Some b)
    with \<open>ExecutableType run = None\<close> assms show ?thesis
      by (auto simp: logService_Logs_def record_call_def Let_def Run_update_same split: option.splits)
  qed
next
  case (Some a)
  show ?thesis
  proof (cases "ExecutableID run")
    case None
    with \<open>ExecutableType run = Some a\<close> assms show ?thesis
      by (auto simp: logService_Logs_def record_call_def Let_def Run_update_same split: option.splits)
  next
    case (Some b)
    with \<open>ExecutableType run = Some a\<close> assms show ?thesis
      by (auto simp: logService_Logs_def record_call_def Let_def Run_update_same split: option.splits)
  qed
qed

lemma logService_LogsText_past_gate:
  assumes "GetRun (sm ls) runID = (run, None)"
      and "Status run = StatusRunning \<or> Status run = StatusStopped"
      and "t = (case ExecutableType run of None \<Rightarrow> ExecutableTypeDefinition | Some x \<Rightarrow> x)"
      and "i = (case ExecutableID run of None \<Rightarrow> DefinitionID run | Some x \<Rightarrow> x)"
      and "GetExecutableByTypeAndID (sm ls) t i = (executable, err)"
      and "s' = s\<lparr>calls := calls s @ [CallGetRun runID, CallGetExecutableByTypeAndID t i]\<rparr>"
      and "run' = run\<lparr>ExecutableType := Some t, ExecutableID := Some i\<rparr>"
  shows "logService_LogsText ls runID s = lc_LogsText ls executable run' s'"
proof (cases "ExecutableType run")
  case None
  show ?thesis
  proof (cases "ExecutableID run")
    case None
    with \<open>ExecutableType run = None\<close> assms show ?thesis
      by (auto simp: logService_LogsText_def record_call_def Let_def split: option.splits)
  next
    case (Some b)
    with \<open>ExecutableType run = None\<close> assms show ?thesis
      by (auto simp: logService_LogsText_def record_call_def Let_def Run_update_same split: option.splits)
  qed
next
  case (Some a)
  show ?thesis
  proof (cases "ExecutableID run")
    case None
    with \<open>ExecutableType run = Some a\<close> assms show ?thesis
      by (auto simp: logService_LogsText_def record_call_def Let_def Run_update_same split: option.splits)
  next
    case (Some b)
    with \<open>ExecutableType run = Some a\<close> assms show ?thesis
      by (auto simp: logService_LogsText_def record_call_def Let_def Run_update_same split: option.splits)
  qed
qed

text \<open>
  The failed lookup in \<open>Logs\<close>: on the ECS engine the error is returned and the
  client is not called; on another engine the descriptor that came with the error
  is handed to the client.
\<close>

lemma Logs_lookup_failure:
  assumes "GetRun (sm ls) runID = (run, None)"
      and "Status run = StatusRunning \<or> Status run = StatusStopped"
      and "t = (case ExecutableType run of None \<Rightarrow> ExecutableTypeDefinition | Some x \<Rightarrow> x)"
      and "i = (case ExecutableID run of None \<Rightarrow> DefinitionID run | Some x \<Rightarrow> x)"
      and "GetExecutableByTypeAndID (sm ls) t i = (executable, Some err)"
      and "Engine run = Some engine"
      and "s' = s\<lparr>calls := calls s @ [CallGetRun runID, CallGetExecutableByTypeAndID t i]\<rparr>"
  shows "logService_Logs ls runID lastSeen s =
           (if engine = ECSEngine then (Ret ('''', None, Some err), s')
            else lc_Logs ls executable (run\<lparr>ExecutableType := Some t, ExecutableID := Some i\<rparr>)
                   lastSeen s')"
  using logService_Logs_past_gate [OF assms(1-5) assms(7) refl] assms(6) by simp

text \<open>
  C1. A run that is loaded and whose status is neither running nor stopped:
  \<open>Logs\<close> returns the empty text, a nil cursor and no error, \<open>LogsText\<close> returns no
  error, and in both the only collaborator called is the state manager's \<open>GetRun\<close>;
  the backend client is not called and its world is as it was.
\<close>

theorem status_gate:
  assumes "GetRun (sm ls) runID = (run, None)"
      and "Status run \<noteq> StatusRunning" and "Status run \<noteq> StatusStopped"
  shows "logService_Logs ls runID lastSeen s
           = (Ret ('''', None, None), s\<lparr>calls := calls s @ [CallGetRun runID]\<rparr>)
       \<and> logService_LogsText ls runID s
           = (Ret None, s\<lparr>calls := calls s @ [CallGetRun runID]\<rparr>)"
  using assms by (simp add: logService_Logs_def logService_LogsText_def record_call_def)

theorem status_gate_witness:
  "logService_Logs \<lparr>sm = single_run_Manager (example_run StatusQueued (Some ECSEngine)) (None, None),
                    lc = counting_Client\<rparr> ''run-1'' (Some ''tok'') \<lparr>calls = [], world = 0\<rparr>
     = (Ret ('''', None, None), \<lparr>calls = [CallGetRun ''run-1''], world = 0\<rparr>)
   \<and> logService_LogsText \<lparr>sm = single_run_Manager (example_run StatusQueued (Some ECSEngine)) (None, None),
                    lc = counting_Client\<rparr> ''run-1'' \<lparr>calls = [], world = 0\<rparr>
     = (Ret None, \<lparr>calls = [CallGetRun ''run-1''], world = 0\<rparr>)"
  using status_gate [where ls = "\<lparr>sm = single_run_Manager (example_run StatusQueued (Some ECSEngine)) (None, None),
                    lc = counting_Client\<rparr>" and runID = "''run-1''"
                    and run = "example_run StatusQueued (Some ECSEngine)"
                    and lastSeen = "Some ''tok''" and s = "\<lparr>calls = [], world = 0\<rparr>"]
  by (simp add: single_run_Manager_def example_run_def StatusQueued_def StatusRunning_def StatusStopped_def)

text \<open>
  C6. For a loaded run with status running or stopped, the lookup that follows
  \<open>GetRun\<close> in \<open>Logs\<close> and in \<open>LogsText\<close> is made with the run's executable type, or the
  definition type when it is missing, and the run's executable id, or its definition
  id when it is missing. A service whose state manager holds the same run with the
  two fields given explicitly behaves the same in both operations.
\<close>

theorem executable_defaults:
  assumes "GetRun (sm ls) runID = (run, None)"
      and "Status run = StatusRunning \<or> Status run = StatusStopped"
      and "t = (case ExecutableType run of None \<Rightarrow> ExecutableTypeDefinition | Some x \<Rightarrow> x)"
      and "i = (case ExecutableID run of None \<Rightarrow> DefinitionID run | Some x \<Rightarrow> x)"
      and "GetRun (sm ls') runID = (run\<lparr>ExecutableType := Some t, ExecutableID := Some i\<rparr>, None)"
      and "GetExecutableByTypeAndID (sm ls') = GetExecutableByTypeAndID (sm ls)"
      and "lc ls' = lc ls"
  shows "take 2 (drop (length (calls s)) (calls (snd (logService_Logs ls runID lastSeen s))))
           = [CallGetRun runID, CallGetExecutableByTypeAndID t i]
       \<and> take 2 (drop (length (calls s)) (calls (snd (logService_LogsText ls runID s))))
           = [CallGetRun runID, CallGetExecutableByTypeAndID t i]
       \<and> logService_Logs ls' runID lastSeen s = logService_Logs ls runID lastSeen s
       \<and> logService_LogsText ls' runID s = logService_LogsText ls runID s"
proof -
  obtain executable err where look: "GetExecutableByTypeAndID (sm ls) t i = (executable, err)"
    by (cases "GetExecutableByTypeAndID (sm ls) t i") simp
  define s' where "s' = s\<lparr>calls := calls s @ [CallGetRun runID, CallGetExecutableByTypeAndID t i]\<rparr>"
  define run' where "run' = run\<lparr>ExecutableType := Some t, ExecutableID := Some i\<rparr>"
  note L = logService_Logs_past_gate [OF assms(1-4) look s'_def run'_def]
  note T = logService_LogsText_past_gate [OF assms(1-4) look s'_def run'_def]
  have gate': "Status run' = StatusRunning \<or> Status run' = StatusStopped"
    using assms(2) by (simp add: run'_def)
  have t': "t = (case ExecutableType run' of None \<Rightarrow> ExecutableTypeDefinition | Some x \<Rightarrow> x)"
    and i': "i = (case ExecutableID run' of None \<Rightarrow> DefinitionID run' | Some x \<Rightarrow> x)"
    by (simp_all add: run'_def)
  have look': "GetExecutableByTypeAndID (sm ls') t i = (executable, err)"
    using look assms(6) by simp
  have same: "run' = run'\<lparr>ExecutableType := Some t, ExecutableID := Some i\<rparr>"
    by (simp add: run'_def)
  note L' = logService_Logs_past_gate [OF assms(5)[folded run'_def] gate' t' i' look' s'_def same]
  note T' = logService_LogsText_past_gate [OF assms(5)[folded run'_def] gate' t' i' look' s'_def same]
  have a: "take 2 (drop (length (calls s)) (calls (snd (logService_Logs ls runID lastSeen s))))
           = [CallGetRun runID, CallGetExecutableByTypeAndID t i]"
    unfolding L by (simp add: s'_def calls_lc_Logs split: option.splits)
  have b: "take 2 (drop (length (calls s)) (calls (snd (logService_LogsText ls runID s))))
           = [CallGetRun runID, CallGetExecutableByTypeAndID t i]"
    unfolding T by (simp add: s'_def calls_lc_LogsText)
  have e: "Engine run' = Engine run" by (simp add: run'_def)
  have lcL: "lc_Logs ls' = lc_Logs ls"
    by (intro ext) (simp add: lc_Logs_def assms(7))
  have lcT: "lc_LogsText ls' = lc_LogsText ls"
    by (intro ext) (simp add: lc_LogsText_def assms(7))
  have c: "logService_Logs ls' runID lastSeen s = logService_Logs ls runID lastSeen s"
    unfolding L L' e lcL by (rule refl)
  have d: "logService_LogsText ls' runID s = logService_LogsText ls runID s"
    unfolding T T' lcT by (rule refl)
  from a b c d show ?thesis by simp
qed

theorem executable_defaults_witness:
  "take 2 (calls (snd (logService_Logs
       \<lparr>sm = single_run_Manager (example_run StatusRunning (Some ECSEngine))
             (Some \<lparr>GetExecutableID = ''abc'', ContainerName = ''c''\<rparr>, None),
        lc = counting_Client\<rparr> ''run-1'' None \<lparr>calls = [], world = 0\<rparr>)))
     = [CallGetRun ''run-1'', CallGetExecutableByTypeAndID ExecutableTypeDefinition ''abc'']
   \<and> logService_Logs
       \<lparr>sm = single_run_Manager ((example_run StatusRunning (Some ECSEngine))
                  \<lparr>ExecutableType := Some ExecutableTypeDefinition, ExecutableID := Some ''abc''\<rparr>)
               (Some \<lparr>GetExecutableID = ''abc'', ContainerName = ''c''\<rparr>, None),
        lc = counting_Client\<rparr> ''run-1'' None \<lparr>calls = [], world = 0\<rparr>
     = logService_Logs
       \<lparr>sm = single_run_Manager (example_run StatusRunning (Some ECSEngine))
             (Some \<lparr>GetExecutableID = ''abc'', ContainerName = ''c''\<rparr>, None),
        lc = counting_Client\<rparr> ''run-1'' None \<lparr>calls = [], world = 0\<rparr>"
  using executable_defaults [where ls = "\<lparr>sm = single_run_Manager (example_run StatusRunning (Some ECSEngine))
             (Some \<lparr>GetExecutableID = ''abc'', ContainerName = ''c''\<rparr>, None),
        lc = counting_Client\<rparr>" and runID = "''run-1''" and lastSeen = None
        and s = "\<lparr>calls = [], world = 0\<rparr>" and run = "example_run StatusRunning (Some ECSEngine)"
        and ls' = "\<lparr>sm = single_run_Manager ((example_run StatusRunning (Some ECSEngine))
                  \<lparr>ExecutableType := Some ExecutableTypeDefinition, ExecutableID := Some ''abc''\<rparr>)
               (Some \<lparr>GetExecutableID = ''abc'', ContainerName = ''c''\<rparr>, None),
        lc = counting_Client\<rparr>",
        OF _ _ refl refl]
  by (simp add: single_run_Manager_def example_run_def)
text \<open>
  C3. A running run on the ECS engine whose executable lookup fails: \<open>LogsText\<close>
  goes on to call the backend client with the nil descriptor and returns the
  client's result, where \<open>Logs\<close> on the same input returns the lookup error and
  leaves the client alone.
\<close>

theorem LogsText_drops_lookup_error:
  "logService_LogsText
     \<lparr>sm = single_run_Manager (example_run StatusRunning (Some ECSEngine))
             (None, Some (OtherError ''no such definition'')),
      lc = counting_Client\<rparr> ''run-1'' \<lparr>calls = [], world = 0\<rparr>
   = (Ret None,
      \<lparr>calls = [CallGetRun ''run-1'',
                CallGetExecutableByTypeAndID ExecutableTypeDefinition ''abc'',
                CallClientLogsText None
                  ((example_run StatusRunning (Some ECSEngine))
                     \<lparr>ExecutableID := Some ''abc'', ExecutableType := Some ExecutableTypeDefinition\<rparr>)],
       world = 1\<rparr>)
   \<and> logService_Logs
     \<lparr>sm = single_run_Manager (example_run StatusRunning (Some ECSEngine))
             (None, Some (OtherError ''no such definition'')),
      lc = counting_Client\<rparr> ''run-1'' None \<lparr>calls = [], world = 0\<rparr>
   = (Ret ('''', None, Some (OtherError ''no such definition'')),
      \<lparr>calls = [CallGetRun ''run-1'',
                CallGetExecutableByTypeAndID ExecutableTypeDefinition ''abc''],
       world = 0\<rparr>)"
  by (simp add: logService_LogsText_def logService_Logs_def lc_LogsText_def record_call_def
        single_run_Manager_def example_run_def counting_Client_def Let_def)

section \<open>The CloudWatch Logs client: the stream handle\<close>

lemma Split_not_Nil: "Split s c \<noteq> []"
  by (induction s) (simp_all split: list.split)

lemma Split_no_sep: "c \<notin> set s \<Longrightarrow> Split s c = [s]"
  by (induction s) auto

lemma Split_with_sep: "c \<in> set s \<Longrightarrow> \<exists>w ws. Split s c = w # ws \<and> ws \<noteq> []"
proof (induction s)
  case Nil
  then show ?case by simp
next
  case (Cons a s)
  show ?case
  proof (cases "a = c")
    case True
    then show ?thesis using Split_not_Nil [of s c] by simp
  next
    case False
    with Cons.prems have "c \<in> set s" by simp
    from Cons.IH [OF this] obtain w ws where "Split s c = w # ws" "ws \<noteq> []" by blast
    with False show ?thesis by simp
  qed
qed

lemma last_Split: "last (Split s c) = rev (takeWhile (\<lambda>x. x \<noteq> c) (rev s))"
proof (induction s)
  case Nil
  show ?case by simp
next
  case (Cons a s)
  show ?case
  proof (cases "c \<in> set s")
    case True
    then have "takeWhile (\<lambda>x. x \<noteq> c) (rev s @ [a]) = takeWhile (\<lambda>x. x \<noteq> c) (rev s)"
      by (simp add: takeWhile_append1)
    moreover have "last (Split (a # s) c) = last (Split s c)"
      using Split_with_sep [OF True] by auto
    ultimately show ?thesis using Cons by simp
  next
    case False
    have tw: "takeWhile (\<lambda>x. x \<noteq> c) (rev s @ [a]) = rev s @ takeWhile (\<lambda>x. x \<noteq> c) [a]"
      using False by (intro takeWhile_append2) auto
    have sp: "Split s c = [s]" using False by (rule Split_no_sep)
    show ?thesis using sp tw by simp
  qed
qed

lemma toStreamName_Some:
  "toStreamName cwl (Some e) run
     = Ret (logStreamPrefix cwl @ ''/'' @ ContainerName e @ ''/'' @ last_segment (TaskArn run))"
proof -
  let ?arnSplits = "Split (TaskArn run) (CHR ''/'')"
  have ne: "?arnSplits \<noteq> []" by (rule Split_not_Nil)
  then have "?arnSplits ! (length ?arnSplits - 1) = last ?arnSplits"
    by (simp add: last_conv_nth)
  then have "?arnSplits ! (length ?arnSplits - 1) = last_segment (TaskArn run)"
    by (simp add: last_Split last_segment_def)
  with ne show ?thesis
    by (simp add: toStreamName_def Sprintf_s3_def Let_def)
qed

lemma toStreamName_Ret:
  "toStreamName cwl executable run = Ret handle \<Longrightarrow> \<exists>e. executable = Some e"
  by (cases executable) (simp_all add: toStreamName_def Let_def)

text \<open>
  C5. For every executable descriptor and run, the stream handle is the stream
  prefix, the executable's container name and the part of the run's task handle
  after its last \<open>/\<close>, joined with \<open>/\<close>; prefix \<open>p\<close>, container \<open>c\<close> and task handle
  \<open>arn:aws:ecs:task/abc123\<close> give \<open>p/c/abc123\<close>.
\<close>

theorem stream_handle:
  "toStreamName cwl (Some e) run
     = Ret (logStreamPrefix cwl @ ''/'' @ ContainerName e @ ''/'' @ last_segment (TaskArn run))
   \<and> (logStreamPrefix cwl = ''p'' \<and> ContainerName e = ''c''
        \<and> TaskArn run = ''arn:aws:ecs:task/abc123''
      \<longrightarrow> toStreamName cwl (Some e) run = Ret ''p/c/abc123'')"
proof
  show general: "toStreamName cwl (Some e) run
     = Ret (logStreamPrefix cwl @ ''/'' @ ContainerName e @ ''/'' @ last_segment (TaskArn run))"
    by (rule toStreamName_Some)
  have "last_segment ''arn:aws:ecs:task/abc123'' = ''abc123''"
    by (simp add: last_segment_def)
  with general show "logStreamPrefix cwl = ''p'' \<and> ContainerName e = ''c''
        \<and> TaskArn run = ''arn:aws:ecs:task/abc123''
      \<longrightarrow> toStreamName cwl (Some e) run = Ret ''p/c/abc123''"
    by simp
qed

theorem stream_handle_witness:
  "toStreamName \<lparr>logRetentionInDays = 30, logNamespace = ''flotilla'', logStreamPrefix = ''p'',
                  logsClient = memory_logsClient\<rparr>
      (Some \<lparr>GetExecutableID = ''abc'', ContainerName = ''c''\<rparr>)
      (example_run StatusRunning (Some ECSEngine))
     = Ret ''p/c/abc123''"
  using stream_handle [where cwl = "\<lparr>logRetentionInDays = 30, logNamespace = ''flotilla'',
                  logStreamPrefix = ''p'', logsClient = memory_logsClient\<rparr>"
      and e = "\<lparr>GetExecutableID = ''abc'', ContainerName = ''c''\<rparr>"
      and run = "example_run StatusRunning (Some ECSEngine)"]
  by (simp add: example_run_def last_segment_def)

section \<open>The CloudWatch Logs client: fetching a page\<close>

text \<open>\<open>Logs\<close> after the stream handle is computed, in terms of the answer to its request.\<close>

lemma Logs_fetch:
  assumes "toStreamName cwl executable run = Ret handle"
      and "GetLogEvents (logsClient cwl) (fetch_request cwl handle lastSeen) (store s) = (result, b)"
      and "s1 = s\<lparr>store := b,
                    requests := requests s @ [ReqGetLogEvents (fetch_request cwl handle lastSeen)]\<rparr>"
  shows "ECSCloudWatchLogsClient_Logs srt cwl executable run lastSeen s =
           (case result of
              Inl err \<Rightarrow>
                (case err of
                   AwsError code text \<Rightarrow>
                     if code = ErrCodeResourceNotFoundException
                     then (Ret ('''', None, Some (MissingResource (Error err))), s1)
                     else if IsErrorThrottle err
                     then (case executable of
                             None \<Rightarrow> (Panic nil_dereference, s1)
                           | Some e \<Rightarrow>
                               (Ret ('''', lastSeen, None),
                                logger_Printf
                                  (''thottled getting logs; executable_id: %v, run_id: %s, error: %+v''
                                     @ [CHR 0x0A])
                                  (GetExecutableID e) (RunID run) err s1))
                     else (Ret ('''', None, Some (Wrap err ''problem getting logs'')), s1)
                 | _ \<Rightarrow> (Ret ('''', None, Some (Wrap err ''problem getting logs'')), s1))
            | Inr out \<Rightarrow>
                if length (Events out) = 0
                then (Ret ('''', NextForwardToken out, None), s1)
                else (Ret (logsToMessage srt (Events out), NextForwardToken out, None), s1))"
proof (cases lastSeen)
  case None
  with assms show ?thesis
    by (simp add: ECSCloudWatchLogsClient_Logs_def sdk_GetLogEvents_def fetch_request_def Let_def
          split: sum.split error.split option.split)
next
  case (Some token)
  show ?thesis
  proof (cases "token = []")
    case True
    with Some assms show ?thesis
      by (simp add: ECSCloudWatchLogsClient_Logs_def sdk_GetLogEvents_def fetch_request_def Let_def
          split: sum.split error.split option.split)
  next
    case False
    with Some assms show ?thesis
      by (simp add: ECSCloudWatchLogsClient_Logs_def sdk_GetLogEvents_def fetch_request_def Let_def
          split: sum.split error.split option.split)
  qed
qed

lemma not_found_is_no_throttle: "ErrCodeResourceNotFoundException \<notin> set throttleCodes"
  by (simp add: ErrCodeResourceNotFoundException_def throttleCodes_def)

text \<open>
  C2. When the fetch that \<open>Logs\<close> sends fails with an error that the SDK classes as
  a throttle, \<open>Logs\<close> returns the empty text, the cursor it was given and no error.
\<close>

theorem throttled_fetch:
  assumes "toStreamName cwl executable run = Ret handle"
      and "fst (GetLogEvents (logsClient cwl) (fetch_request cwl handle lastSeen) (store s)) = Inl err"
      and "IsErrorThrottle err"
  shows "fst (ECSCloudWatchLogsClient_Logs srt cwl executable run lastSeen s)
           = Ret ('''', lastSeen, None)"
proof -
  obtain b where f: "GetLogEvents (logsClient cwl) (fetch_request cwl handle lastSeen) (store s)
                       = (Inl err, b)"
    using assms(2) by (cases "GetLogEvents (logsClient cwl) (fetch_request cwl handle lastSeen) (store s)") simp
  obtain e where e: "executable = Some e"
    using toStreamName_Ret [OF assms(1)] by blast
  obtain code msg where err: "err = AwsError code msg" "code \<in> set throttleCodes"
    using assms(3) by (cases err) simp_all
  then have "code \<noteq> ErrCodeResourceNotFoundException"
    using not_found_is_no_throttle by auto
  with err e show ?thesis
    unfolding Logs_fetch [OF assms(1) f refl] by simp
qed

theorem throttled_fetch_witness:
  "fst (ECSCloudWatchLogsClient_Logs insertionSort
          \<lparr>logRetentionInDays = 30, logNamespace = ''flotilla'', logStreamPrefix = ''p'',
           logsClient = scripted_logsClient (Inl (AwsError ''ThrottlingException'' ''Rate exceeded''))\<rparr>
          (Some \<lparr>GetExecutableID = ''abc'', ContainerName = ''c''\<rparr>)
          (example_run StatusRunning (Some ECSEngine)) (Some ''tok-7'')
          \<lparr>store = (), requests = [], logged = []\<rparr>)
     = Ret ('''', Some ''tok-7'', None)"
  using throttled_fetch [where cwl = "\<lparr>logRetentionInDays = 30, logNamespace = ''flotilla'',
           logStreamPrefix = ''p'',
           logsClient = scripted_logsClient (Inl (AwsError ''ThrottlingException'' ''Rate exceeded''))\<rparr>"
      and executable = "Some \<lparr>GetExecutableID = ''abc'', ContainerName = ''c''\<rparr>"
      and run = "example_run StatusRunning (Some ECSEngine)" and lastSeen = "Some ''tok-7''"
      and s = "\<lparr>store = (), requests = [], logged = []\<rparr>" and handle = "''p/c/abc123''"
      and err = "AwsError ''ThrottlingException'' ''Rate exceeded''" and srt = insertionSort]
  by (simp add: toStreamName_Some last_segment_def example_run_def scripted_logsClient_def
        throttleCodes_def)

text \<open>
  C7. When the fetch succeeds with no events, \<open>Logs\<close> returns the empty text, the
  next token of the response and no error.
\<close>

theorem empty_page:
  assumes "toStreamName cwl executable run = Ret handle"
      and "fst (GetLogEvents (logsClient cwl) (fetch_request cwl handle lastSeen) (store s)) = Inr out"
      and "Events out = []"
  shows "fst (ECSCloudWatchLogsClient_Logs srt cwl executable run lastSeen s)
           = Ret ('''', NextForwardToken out, None)"
proof -
  obtain b where f: "GetLogEvents (logsClient cwl) (fetch_request cwl handle lastSeen) (store s)
                       = (Inr out, b)"
    using assms(2) by (cases "GetLogEvents (logsClient cwl) (fetch_request cwl handle lastSeen) (store s)") simp
  show ?thesis using assms(3)
    by (simp add: Logs_fetch [OF assms(1) f refl])
qed

theorem empty_page_witness:
  "fst (ECSCloudWatchLogsClient_Logs insertionSort
          \<lparr>logRetentionInDays = 30, logNamespace = ''flotilla'', logStreamPrefix = ''p'',
           logsClient = scripted_logsClient (Inr \<lparr>Events = [], NextForwardToken = Some ''tok-7''\<rparr>)\<rparr>
          (Some \<lparr>GetExecutableID = ''abc'', ContainerName = ''c''\<rparr>)
          (example_run StatusRunning (Some ECSEngine)) (Some ''tok-7'')
          \<lparr>store = (), requests = [], logged = []\<rparr>)
     = Ret ('''', Some ''tok-7'', None)"
  using empty_page [where cwl = "\<lparr>logRetentionInDays = 30, logNamespace = ''flotilla'',
           logStreamPrefix = ''p'',
           logsClient = scripted_logsClient (Inr \<lparr>Events = [], NextForwardToken = Some ''tok-7''\<rparr>)\<rparr>"
      and executable = "Some \<lparr>GetExecutableID = ''abc'', ContainerName = ''c''\<rparr>"
      and run = "example_run StatusRunning (Some ECSEngine)" and lastSeen = "Some ''tok-7''"
      and s = "\<lparr>store = (), requests = [], logged = []\<rparr>" and handle = "''p/c/abc123''"
      and out = "\<lparr>Events = [], NextForwardToken = Some ''tok-7''\<rparr>" and srt = insertionSort]
  by (simp add: toStreamName_Some last_segment_def example_run_def scripted_logsClient_def)

text \<open>
  C8. When the fetch fails with the SDK's resource-not-found code, \<open>Logs\<close> returns a
  \<open>MissingResource\<close> error carrying the text of the SDK's error; and on every input
  \<open>LogsText\<close> returns the error that says the method is not supported, sending
  nothing and changing nothing.
\<close>

theorem missing_stream_and_LogsText:
  "(toStreamName cwl executable run = Ret handle
      \<and> fst (GetLogEvents (logsClient cwl) (fetch_request cwl handle lastSeen) (store s))
            = Inl (AwsError ErrCodeResourceNotFoundException msg)
    \<longrightarrow> fst (ECSCloudWatchLogsClient_Logs srt cwl executable run lastSeen s)
          = Ret ('''', None, Some (MissingResource msg)))
   \<and> ECSCloudWatchLogsClient_LogsText cwl executable run s
       = (Ret (Some (Errorf ''ECSCloudWatchLogsClient does not support LogsText method.'')), s)"
proof -
  have "fst (ECSCloudWatchLogsClient_Logs srt cwl executable run lastSeen s)
          = Ret ('''', None, Some (MissingResource msg))"
    if h: "toStreamName cwl executable run = Ret handle"
    and g: "fst (GetLogEvents (logsClient cwl) (fetch_request cwl handle lastSeen) (store s))
            = Inl (AwsError ErrCodeResourceNotFoundException msg)"
  proof -
    obtain b where f: "GetLogEvents (logsClient cwl) (fetch_request cwl handle lastSeen) (store s)
                       = (Inl (AwsError ErrCodeResourceNotFoundException msg), b)"
      using g by (cases "GetLogEvents (logsClient cwl) (fetch_request cwl handle lastSeen) (store s)") simp
    show ?thesis by (simp add: Logs_fetch [OF h f refl])
  qed
  then show ?thesis by (simp add: ECSCloudWatchLogsClient_LogsText_def)
qed

theorem missing_stream_and_LogsText_witness:
  "fst (ECSCloudWatchLogsClient_Logs insertionSort
          \<lparr>logRetentionInDays = 30, logNamespace = ''flotilla'', logStreamPrefix = ''p'',
           logsClient = memory_logsClient\<rparr>
          (Some \<lparr>GetExecutableID = ''abc'', ContainerName = ''c''\<rparr>)
          (example_run StatusRunning (Some ECSEngine)) None
          \<lparr>store = [], requests = [], logged = []\<rparr>)
     = Ret ('''', None, Some (MissingResource ''no such stream''))"
  using missing_stream_and_LogsText [where cwl = "\<lparr>logRetentionInDays = 30,
           logNamespace = ''flotilla'', logStreamPrefix = ''p'', logsClient = memory_logsClient\<rparr>"
      and executable = "Some \<lparr>GetExecutableID = ''abc'', ContainerName = ''c''\<rparr>"
      and run = "example_run StatusRunning (Some ECSEngine)" and lastSeen = None
      and s = "\<lparr>store = [], requests = [], logged = []\<rparr>" and handle = "''p/c/abc123''"
      and msg = "''no such stream''" and srt = insertionSort]
  by (simp add: toStreamName_Some last_segment_def example_run_def memory_logsClient_def)

section \<open>The CloudWatch Logs client: the order of a page\<close>

text \<open>Events with distinct timestamps have one rearrangement in timestamp order.\<close>

lemma sorted_rearrangement_unique:
  assumes "mset ys = mset xs"
      and "sorted_wrt (\<lambda>a b. \<not> byTimestamp_Less b a) ys"
      and "distinct (map Timestamp xs)"
  shows "ys = sort_key Timestamp xs"
proof -
  have m: "mset (map Timestamp ys) = mset (map Timestamp xs)"
    using assms(1) by (metis mset_map)
  have dy: "distinct (map Timestamp ys)"
    using m assms(3) by (metis mset_eq_imp_distinct_iff)
  have sy: "sorted (map Timestamp ys)"
    using assms(2) by (simp add: sorted_wrt_map byTimestamp_Less_def not_less)
  have "set ys = set xs" using assms(1) by (metis set_mset_mset)
  then have inj: "inj_on Timestamp (set ys \<union> set (sort_key Timestamp xs))"
    using assms(3) by (simp add: distinct_map)
  show ?thesis
  proof (rule map_sorted_distinct_set_unique [OF inj sy dy])
    show "sorted (map Timestamp (sort_key Timestamp xs))" by simp
    show "distinct (map Timestamp (sort_key Timestamp xs))"
      using assms(3) by (metis distinct_map distinct_sort set_sort)
    show "set ys = set (sort_key Timestamp xs)" using \<open>set ys = set xs\<close> by simp
  qed
qed

text \<open>Insertion sort meets the contract of the sort on every list of events.\<close>

lemma insert_by_mset: "mset (insert_by lt x xs) = add_mset x (mset xs)"
  by (induction xs) simp_all

lemma insertionSort_mset: "mset (insertionSort lt xs) = mset xs"
  by (induction xs) (simp_all add: insertionSort_def insert_by_mset)

lemma insert_by_set: "set (insert_by lt x xs) = insert x (set xs)"
  by (induction xs) auto

lemma insert_by_sorted:
  "sorted_wrt (\<lambda>a b. \<not> byTimestamp_Less b a) xs
     \<Longrightarrow> sorted_wrt (\<lambda>a b. \<not> byTimestamp_Less b a) (insert_by byTimestamp_Less x xs)"
proof (induction xs)
  case Nil
  show ?case by simp
next
  case (Cons y ys)
  then show ?case by (auto simp: byTimestamp_Less_def insert_by_set)
qed

lemma sorts_insertionSort: "sorts insertionSort byTimestamp_Less xs"
proof -
  have "sorted_wrt (\<lambda>a b. \<not> byTimestamp_Less b a) (insertionSort byTimestamp_Less xs)"
    by (induction xs) (simp_all add: insertionSort_def insert_by_sorted)
  then show ?thesis by (simp add: sorts_def insertionSort_mset)
qed

text \<open>
  C4. When the fetch succeeds with a non-empty list of events, and the sort meets
  its contract on that list, the text \<open>Logs\<close> returns is the messages of a
  rearrangement of the events in ascending order of timestamp, joined with
  newlines, and the cursor is the next token of the response. When the timestamps
  differ from each other the rearrangement is the one sorted by timestamp, whatever
  the order of delivery; events with timestamps 3, 1, 2 and messages \<open>c\<close>, \<open>a\<close>, \<open>b\<close>
  give \<open>a\<close>, newline, \<open>b\<close>, newline, \<open>c\<close>.
\<close>

theorem page_sorted_by_timestamp:
  assumes "toStreamName cwl executable run = Ret handle"
      and "fst (GetLogEvents (logsClient cwl) (fetch_request cwl handle lastSeen) (store s)) = Inr out"
      and "Events out \<noteq> []"
      and "sorts srt byTimestamp_Less (Events out)"
  shows "(\<exists>ys. mset ys = mset (Events out) \<and> sorted (map Timestamp ys)
            \<and> fst (ECSCloudWatchLogsClient_Logs srt cwl executable run lastSeen s)
                = Ret (Join (map Message ys) [CHR 0x0A], NextForwardToken out, None))
       \<and> (distinct (map Timestamp (Events out))
            \<longrightarrow> fst (ECSCloudWatchLogsClient_Logs srt cwl executable run lastSeen s)
                = Ret (Join (map Message (sort_key Timestamp (Events out))) [CHR 0x0A],
                       NextForwardToken out, None))
       \<and> (Events out = [OutputLogEvent 3 ''c'', OutputLogEvent 1 ''a'', OutputLogEvent 2 ''b'']
            \<longrightarrow> fst (ECSCloudWatchLogsClient_Logs srt cwl executable run lastSeen s)
                = Ret ([CHR ''a'', CHR 0x0A, CHR ''b'', CHR 0x0A, CHR ''c''],
                       NextForwardToken out, None))"
proof -
  obtain b where f: "GetLogEvents (logsClient cwl) (fetch_request cwl handle lastSeen) (store s)
                       = (Inr out, b)"
    using assms(2) by (cases "GetLogEvents (logsClient cwl) (fetch_request cwl handle lastSeen) (store s)") simp
  let ?ys = "srt byTimestamp_Less (Events out)"
  have r: "fst (ECSCloudWatchLogsClient_Logs srt cwl executable run lastSeen s)
             = Ret (Join (map Message ?ys) [CHR 0x0A], NextForwardToken out, None)"
    unfolding Logs_fetch [OF assms(1) f refl] using assms(3)
    by (simp add: logsToMessage_def)
  have p: "mset ?ys = mset (Events out)"
    and o: "sorted_wrt (\<lambda>a b. \<not> byTimestamp_Less b a) ?ys"
    using assms(4) by (simp_all add: sorts_def)
  have so: "sorted (map Timestamp ?ys)"
    using o by (simp add: sorted_wrt_map byTimestamp_Less_def not_less)
  have u: "?ys = sort_key Timestamp (Events out)" if "distinct (map Timestamp (Events out))"
    using sorted_rearrangement_unique [OF p o that] .
  have first: "\<exists>ys. mset ys = mset (Events out) \<and> sorted (map Timestamp ys)
            \<and> fst (ECSCloudWatchLogsClient_Logs srt cwl executable run lastSeen s)
                = Ret (Join (map Message ys) [CHR 0x0A], NextForwardToken out, None)"
    using p so r by blast
  have second: "distinct (map Timestamp (Events out))
            \<longrightarrow> fst (ECSCloudWatchLogsClient_Logs srt cwl executable run lastSeen s)
                = Ret (Join (map Message (sort_key Timestamp (Events out))) [CHR 0x0A],
                       NextForwardToken out, None)"
    using r u by simp
  have third: "Events out = [OutputLogEvent 3 ''c'', OutputLogEvent 1 ''a'', OutputLogEvent 2 ''b'']
            \<longrightarrow> fst (ECSCloudWatchLogsClient_Logs srt cwl executable run lastSeen s)
                = Ret ([CHR ''a'', CHR 0x0A, CHR ''b'', CHR 0x0A, CHR ''c''],
                       NextForwardToken out, None)"
  proof
    assume ev: "Events out = [OutputLogEvent 3 ''c'', OutputLogEvent 1 ''a'', OutputLogEvent 2 ''b'']"
    then have "distinct (map Timestamp (Events out))" by simp
    from u [OF this] have "?ys = [OutputLogEvent 1 ''a'', OutputLogEvent 2 ''b'', OutputLogEvent 3 ''c'']"
      by (simp add: ev)
    with r show "fst (ECSCloudWatchLogsClient_Logs srt cwl executable run lastSeen s)
                = Ret ([CHR ''a'', CHR 0x0A, CHR ''b'', CHR 0x0A, CHR ''c''],
                       NextForwardToken out, None)"
      by simp
  qed
  from first second third show ?thesis by blast
qed

theorem page_sorted_by_timestamp_witness:
  "fst (ECSCloudWatchLogsClient_Logs insertionSort
          \<lparr>logRetentionInDays = 30, logNamespace = ''flotilla'', logStreamPrefix = ''p'',
           logsClient = scripted_logsClient
             (Inr \<lparr>Events = [OutputLogEvent 3 ''c'', OutputLogEvent 1 ''a'', OutputLogEvent 2 ''b''],
                   NextForwardToken = Some ''tok-8''\<rparr>)\<rparr>
          (Some \<lparr>GetExecutableID = ''abc'', ContainerName = ''c''\<rparr>)
          (example_run StatusRunning (Some ECSEngine)) (Some ''tok-7'')
          \<lparr>store = (), requests = [], logged = []\<rparr>)
     = Ret ([CHR ''a'', CHR 0x0A, CHR ''b'', CHR 0x0A, CHR ''c''], Some ''tok-8'', None)"
  using page_sorted_by_timestamp [where cwl = "\<lparr>logRetentionInDays = 30,
           logNamespace = ''flotilla'', logStreamPrefix = ''p'',
           logsClient = scripted_logsClient
             (Inr \<lparr>Events = [OutputLogEvent 3 ''c'', OutputLogEvent 1 ''a'', OutputLogEvent 2 ''b''],
                   NextForwardToken = Some ''tok-8''\<rparr>)\<rparr>"
      and executable = "Some \<lparr>GetExecutableID = ''abc'', ContainerName = ''c''\<rparr>"
      and run = "example_run StatusRunning (Some ECSEngine)" and lastSeen = "Some ''tok-7''"
      and s = "\<lparr>store = (), requests = [], logged = []\<rparr>" and handle = "''p/c/abc123''"
      and out = "\<lparr>Events = [OutputLogEvent 3 ''c'', OutputLogEvent 1 ''a'', OutputLogEvent 2 ''b''],
                   NextForwardToken = Some ''tok-8''\<rparr>"
      and srt = insertionSort]
  by (simp add: toStreamName_Some last_segment_def example_run_def scripted_logsClient_def
        sorts_def insertionSort_def byTimestamp_Less_def)

section \<open>The CloudWatch Logs client: the first request\<close>

text \<open>
  C10. A cursor that points to the empty string is handled as no cursor: both calls
  leave the same store, the same requests and the same log lines behind, and the
  one request they send asks for the stream from its head with no continuation
  token.
\<close>

theorem empty_cursor_is_no_cursor:
  "snd (ECSCloudWatchLogsClient_Logs srt cwl executable run (Some []) s)
     = snd (ECSCloudWatchLogsClient_Logs srt cwl executable run None s)
   \<and> (toStreamName cwl executable run = Ret handle
      \<longrightarrow> requests_since s (snd (ECSCloudWatchLogsClient_Logs srt cwl executable run None s))
            = [ReqGetLogEvents \<lparr>LogGroupName = logNamespace cwl, LogStreamName = handle,
                                StartFromHead = True, NextToken = None\<rparr>])"
proof -
  have same: "snd (ECSCloudWatchLogsClient_Logs srt cwl executable run (Some []) s)
     = snd (ECSCloudWatchLogsClient_Logs srt cwl executable run None s)"
    by (simp add: ECSCloudWatchLogsClient_Logs_def Let_def logger_Printf_def
          split: go.split prod.split sum.split error.split option.split)
  have req: "requests_since s (snd (ECSCloudWatchLogsClient_Logs srt cwl executable run None s))
            = [ReqGetLogEvents \<lparr>LogGroupName = logNamespace cwl, LogStreamName = handle,
                                StartFromHead = True, NextToken = None\<rparr>]"
    if h: "toStreamName cwl executable run = Ret handle"
  proof -
    obtain result b where f: "GetLogEvents (logsClient cwl) (fetch_request cwl handle None) (store s)
                       = (result, b)"
      by (cases "GetLogEvents (logsClient cwl) (fetch_request cwl handle None) (store s)") simp
    show ?thesis
      unfolding Logs_fetch [OF h f refl]
      by (simp add: requests_since_def fetch_request_def logger_Printf_def
            split: sum.split error.split option.split)
  qed
  from same req show ?thesis by simp
qed

theorem empty_cursor_is_no_cursor_witness:
  "requests (snd (ECSCloudWatchLogsClient_Logs insertionSort
          \<lparr>logRetentionInDays = 30, logNamespace = ''flotilla'', logStreamPrefix = ''p'',
           logsClient = scripted_logsClient (Inr \<lparr>Events = [], NextForwardToken = Some ''tok-1''\<rparr>)\<rparr>
          (Some \<lparr>GetExecutableID = ''abc'', ContainerName = ''c''\<rparr>)
          (example_run StatusRunning (Some ECSEngine)) (Some [])
          \<lparr>store = (), requests = [], logged = []\<rparr>))
     = [ReqGetLogEvents \<lparr>LogGroupName = ''flotilla'', LogStreamName = ''p/c/abc123'',
                         StartFromHead = True, NextToken = None\<rparr>]"
  using empty_cursor_is_no_cursor [where cwl = "\<lparr>logRetentionInDays = 30,
           logNamespace = ''flotilla'', logStreamPrefix = ''p'',
           logsClient = scripted_logsClient (Inr \<lparr>Events = [], NextForwardToken = Some ''tok-1''\<rparr>)\<rparr>"
      and executable = "Some \<lparr>GetExecutableID = ''abc'', ContainerName = ''c''\<rparr>"
      and run = "example_run StatusRunning (Some ECSEngine)"
      and s = "\<lparr>store = (), requests = [], logged = []\<rparr>" and handle = "''p/c/abc123''"
      and srt = insertionSort]
  by (simp add: toStreamName_Some last_segment_def example_run_def requests_since_def)

text \<open>
  What the two calls return differs in one case only: on a throttled fetch the
  cursor handed back is the one handed in, the pointer to the empty string or nil.
\<close>

lemma throttled_fetch_echoes_empty_cursor:
  "fst (ECSCloudWatchLogsClient_Logs insertionSort
          \<lparr>logRetentionInDays = 30, logNamespace = ''flotilla'', logStreamPrefix = ''p'',
           logsClient = scripted_logsClient (Inl (AwsError ''ThrottlingException'' ''Rate exceeded''))\<rparr>
          (Some \<lparr>GetExecutableID = ''abc'', ContainerName = ''c''\<rparr>)
          (example_run StatusRunning (Some ECSEngine)) (Some [])
          \<lparr>store = (), requests = [], logged = []\<rparr>)
     = Ret ('''', Some [], None)
   \<and> fst (ECSCloudWatchLogsClient_Logs insertionSort
          \<lparr>logRetentionInDays = 30, logNamespace = ''flotilla'', logStreamPrefix = ''p'',
           logsClient = scripted_logsClient (Inl (AwsError ''ThrottlingException'' ''Rate exceeded''))\<rparr>
          (Some \<lparr>GetExecutableID = ''abc'', ContainerName = ''c''\<rparr>)
          (example_run StatusRunning (Some ECSEngine)) None
          \<lparr>store = (), requests = [], logged = []\<rparr>)
     = Ret ('''', None, None)"
  by (simp add: ECSCloudWatchLogsClient_Logs_def toStreamName_Some sdk_GetLogEvents_def
        scripted_logsClient_def throttleCodes_def ErrCodeResourceNotFoundException_def
        logger_Printf_def Let_def)

section \<open>Provisioning the namespace twice\<close>

lemma namespaceExists_scan_iff:
  "namespaceExists_scan ns groups \<longleftrightarrow> LogGroup ns \<in> set groups"
proof (induction groups)
  case Nil
  show ?case by simp
next
  case (Cons g gs)
  then show ?case by (cases g) auto
qed

lemma namespaceExists_listed:
  assumes "namespace_listed cwl (store s)"
  shows "namespaceExists cwl s
           = ((True, None),
              s\<lparr>store := snd (DescribeLogGroups (logsClient cwl)
                                (DescribeLogGroupsInput (logNamespace cwl)) (store s)),
                requests := requests s
                  @ [ReqDescribeLogGroups (DescribeLogGroupsInput (logNamespace cwl))]\<rparr>)"
proof -
  obtain r b where d: "DescribeLogGroups (logsClient cwl) (DescribeLogGroupsInput (logNamespace cwl))
                         (store s) = (r, b)"
    by (cases "DescribeLogGroups (logsClient cwl) (DescribeLogGroupsInput (logNamespace cwl)) (store s)")
       simp
  with assms obtain out where r: "r = Inr out" and m: "LogGroup (logNamespace cwl) \<in> set (LogGroups out)"
    by (cases r) (simp_all add: namespace_listed_def)
  from m have ne: "LogGroups out \<noteq> []" by auto
  show ?thesis using d r m ne
    by (simp add: namespaceExists_def sdk_DescribeLogGroups_def namespaceExists_scan_iff)
qed

lemma createNamespaceIfNotExists_listed:
  assumes "namespace_listed cwl (store s)"
  shows "createNamespaceIfNotExists cwl s
           = (None,
              s\<lparr>store := snd (DescribeLogGroups (logsClient cwl)
                                (DescribeLogGroupsInput (logNamespace cwl)) (store s)),
                requests := requests s
                  @ [ReqDescribeLogGroups (DescribeLogGroupsInput (logNamespace cwl))]\<rparr>)"
  by (simp add: createNamespaceIfNotExists_def namespaceExists_listed [OF assms])

lemma createNamespaceIfNotExists_requests:
  "\<exists>rs. requests (snd (createNamespaceIfNotExists cwl s)) = requests s @ rs
        \<and> length (filter is_create rs) \<le> 1"
  by (auto simp: createNamespaceIfNotExists_def namespaceExists_def createNamespace_def
        sdk_DescribeLogGroups_def sdk_CreateLogGroup_def sdk_PutRetentionPolicy_def
        is_create_def Let_def
      split: prod.split sum.split option.split)

text \<open>
  C9. When the listing for the namespace holds a group of exactly that name,
  \<open>createNamespaceIfNotExists\<close> returns no error and sends the listing request only:
  no group is created and no retention policy is set. Hence, of two calls in
  sequence where the group is listed after the first, the second returns no error
  and sends the listing request only, and both together send at most one request
  to create the group.
\<close>

theorem namespace_provisioning_idempotent:
  "(namespace_listed cwl (store t)
     \<longrightarrow> createNamespaceIfNotExists cwl t
          = (None,
             t\<lparr>store := snd (DescribeLogGroups (logsClient cwl)
                               (DescribeLogGroupsInput (logNamespace cwl)) (store t)),
               requests := requests t
                 @ [ReqDescribeLogGroups (DescribeLogGroupsInput (logNamespace cwl))]\<rparr>))
   \<and> (createNamespaceIfNotExists cwl s = (r1, s1)
        \<and> createNamespaceIfNotExists cwl s1 = (r2, s2)
        \<and> namespace_listed cwl (store s1)
     \<longrightarrow> r2 = None
        \<and> requests_since s1 s2 = [ReqDescribeLogGroups (DescribeLogGroupsInput (logNamespace cwl))]
        \<and> length (filter is_create (requests_since s s2)) \<le> 1)"
proof -
  have second: "r2 = None
        \<and> requests_since s1 s2 = [ReqDescribeLogGroups (DescribeLogGroupsInput (logNamespace cwl))]
        \<and> length (filter is_create (requests_since s s2)) \<le> 1"
    if one: "createNamespaceIfNotExists cwl s = (r1, s1)"
    and two: "createNamespaceIfNotExists cwl s1 = (r2, s2)"
    and listed: "namespace_listed cwl (store s1)"
  proof -
    from createNamespaceIfNotExists_requests [of cwl s] one
    obtain rs where rs: "requests s1 = requests s @ rs" "length (filter is_create rs) \<le> 1"
      by auto
    from createNamespaceIfNotExists_listed [OF listed] two
    have r2: "r2 = None"
      and s2: "requests s2 = requests s1
                 @ [ReqDescribeLogGroups (DescribeLogGroupsInput (logNamespace cwl))]"
      by auto
    from s2 have a: "requests_since s1 s2
                       = [ReqDescribeLogGroups (DescribeLogGroupsInput (logNamespace cwl))]"
      by (simp add: requests_since_def)
    from s2 rs have "requests_since s s2
                       = rs @ [ReqDescribeLogGroups (DescribeLogGroupsInput (logNamespace cwl))]"
      by (simp add: requests_since_def)
    with rs(2) have "length (filter is_create (requests_since s s2)) \<le> 1"
      by (simp add: is_create_def)
    with r2 a show ?thesis by simp
  qed
  with createNamespaceIfNotExists_listed show ?thesis by blast
qed

theorem namespace_provisioning_idempotent_witness:
  "createNamespaceIfNotExists
      \<lparr>logRetentionInDays = 30, logNamespace = ''flotilla'', logStreamPrefix = ''p'',
       logsClient = memory_logsClient\<rparr>
      \<lparr>store = [], requests = [], logged = []\<rparr>
     = (None, \<lparr>store = [(''flotilla'', Some 30)],
               requests = [ReqDescribeLogGroups (DescribeLogGroupsInput ''flotilla''),
                           ReqCreateLogGroup (CreateLogGroupInput ''flotilla''),
                           ReqPutRetentionPolicy (PutRetentionPolicyInput ''flotilla'' 30)],
               logged = []\<rparr>)
   \<and> createNamespaceIfNotExists
      \<lparr>logRetentionInDays = 30, logNamespace = ''flotilla'', logStreamPrefix = ''p'',
       logsClient = memory_logsClient\<rparr>
      \<lparr>store = [(''flotilla'', Some 30)],
               requests = [ReqDescribeLogGroups (DescribeLogGroupsInput ''flotilla''),
                           ReqCreateLogGroup (CreateLogGroupInput ''flotilla''),
                           ReqPutRetentionPolicy (PutRetentionPolicyInput ''flotilla'' 30)],
               logged = []\<rparr>
     = (None, \<lparr>store = [(''flotilla'', Some 30)],
               requests = [ReqDescribeLogGroups (DescribeLogGroupsInput ''flotilla''),
                           ReqCreateLogGroup (CreateLogGroupInput ''flotilla''),
                           ReqPutRetentionPolicy (PutRetentionPolicyInput ''flotilla'' 30),
                           ReqDescribeLogGroups (DescribeLogGroupsInput ''flotilla'')],
               logged = []\<rparr>)
   \<and> namespace_listed
      \<lparr>logRetentionInDays = 30, logNamespace = ''flotilla'', logStreamPrefix = ''p'',
       logsClient = memory_logsClient\<rparr> [(''flotilla'', Some 30)]"
proof -
  let ?cwl = "\<lparr>logRetentionInDays = 30, logNamespace = ''flotilla'', logStreamPrefix = ''p'',
                logsClient = memory_logsClient\<rparr>"
  let ?s = "\<lparr>store = [], requests = [], logged = []\<rparr> :: (string \<times> int option) list cloudwatch"
  let ?s1 = "\<lparr>store = [(''flotilla'', Some (30::int))],
               requests = [ReqDescribeLogGroups (DescribeLogGroupsInput ''flotilla''),
                           ReqCreateLogGroup (CreateLogGroupInput ''flotilla''),
                           ReqPutRetentionPolicy (PutRetentionPolicyInput ''flotilla'' 30)],
               logged = []\<rparr>"
  have one: "createNamespaceIfNotExists ?cwl ?s = (None, ?s1)"
    by (simp add: createNamespaceIfNotExists_def namespaceExists_def createNamespace_def
          sdk_DescribeLogGroups_def sdk_CreateLogGroup_def sdk_PutRetentionPolicy_def
          memory_logsClient_def)
  have listed: "namespace_listed ?cwl (store ?s1)"
    by (simp add: namespace_listed_def memory_logsClient_def)
  obtain r2 s2 where two: "createNamespaceIfNotExists ?cwl ?s1 = (r2, s2)"
    by (cases "createNamespaceIfNotExists ?cwl ?s1") simp
  from namespace_provisioning_idempotent [of ?cwl ?s1 ?s None ?s1 r2 s2] one two listed
  show ?thesis
    by (simp add: memory_logsClient_def)
qed

text \<open>
  Against the store held in memory the group is listed after every call, whatever
  the store held before.
\<close>

lemma memory_store_lists_namespace_after_call:
  assumes "logsClient cwl = memory_logsClient"
  shows "namespace_listed cwl (store (snd (createNamespaceIfNotExists cwl s)))"
proof (cases "logNamespace cwl \<in> set (map fst (store s))")
  case True
  then have "namespace_listed cwl (store s)"
    using assms by (force simp: namespace_listed_def memory_logsClient_def)
  from createNamespaceIfNotExists_listed [OF this] this show ?thesis
    using assms by (simp add: memory_logsClient_def)
next
  case False
  then have no: "\<not> namespaceExists_scan (logNamespace cwl)
                     (map (\<lambda>g. LogGroup (fst g))
                        (filter (\<lambda>g. take (length (logNamespace cwl)) (fst g) = logNamespace cwl)
                           (store s)))"
    by (auto simp: namespaceExists_scan_iff)
  have "store (snd (createNamespaceIfNotExists cwl s))
          = map (\<lambda>g. if fst g = logNamespace cwl
                      then (logNamespace cwl, Some (logRetentionInDays cwl)) else g)
              (store s @ [(logNamespace cwl, None)])"
    using False no assms
    by (simp add: createNamespaceIfNotExists_def namespaceExists_def createNamespace_def
          sdk_DescribeLogGroups_def sdk_CreateLogGroup_def sdk_PutRetentionPolicy_def
          memory_logsClient_def Let_def)
  then have "(logNamespace cwl, Some (logRetentionInDays cwl))
               \<in> set (store (snd (createNamespaceIfNotExists cwl s)))"
    by simp
  then show ?thesis using assms
    by (force simp: namespace_listed_def memory_logsClient_def)
qed

end
